theory Spec2Isabelle
  imports Complex_Main
begin

section \<open>Spacecraft EPS power budget: routing controller and battery integrator\<close>

text \<open>
  The program is Python. Its \<^verbatim>\<open>float\<close> values are modelled as \<^typ>\<open>real\<close>, and the
  values it computes are the exact ones: the rounding error of a result is not
  modelled. What decides the control flow is modelled on the rounded binary64 value
  \<open>fl\<close>: a divisor that is a float product raises \<^verbatim>\<open>ZeroDivisionError\<close> when the
  product rounds to zero, also by underflow; the step count is \<^verbatim>\<open>int()\<close> of the rounded
  quotient; and \<^verbatim>\<open>int()\<close> raises \<^verbatim>\<open>OverflowError\<close> when the quotient overflows to
  infinity. Inputs are finite floats; NaN and infinite inputs are outside the model.
  Exceptions are values of the type \<open>error\<close>; a function that can raise returns
  \<open>error + 'a\<close> with \<open>Inl\<close> for the exception.
\<close>

subsection \<open>Exceptions and builtins\<close>

text \<open>
  Every \<^verbatim>\<open>raise\<close> of the sources is a \<^verbatim>\<open>ValueError\<close> built from an f-string.
  The model keeps the literal text of the f-string, with \<^verbatim>\<open>{}\<close> where a value is
  interpolated, and the interpolated values in order. A float division whose divisor
  is zero raises \<^verbatim>\<open>ZeroDivisionError\<close>, and \<^verbatim>\<open>int()\<close> of an infinite float raises
  \<^verbatim>\<open>OverflowError\<close>.
\<close>

datatype error = ValueError string "real list" | ZeroDivisionError | OverflowError

text \<open>\<^verbatim>\<open>int(x)\<close> on a float truncates towards zero.\<close>

definition py_int :: "real \<Rightarrow> int" where
  "py_int x = (if 0 \<le> x then \<lfloor>x\<rfloor> else \<lceil>x\<rceil>)"

text \<open>
  \<^verbatim>\<open>round(x, ndigits)\<close> on a float rounds to the nearest multiple of
  \<open>10 ^ (- ndigits)\<close>, a tie going to the even neighbour.
\<close>

definition round_half_even :: "real \<Rightarrow> int" where
  "round_half_even x =
     (let f = \<lfloor>x\<rfloor>; r = x - of_int f
      in if r < 1 / 2 then f
         else if 1 / 2 < r then f + 1
         else if even f then f else f + 1)"

definition py_round :: "real \<Rightarrow> nat \<Rightarrow> real" where
  "py_round x ndigits = of_int (round_half_even (x * 10 ^ ndigits)) / 10 ^ ndigits"

text \<open>
  Rounding to binary64, the result of one float operation on the exact value \<open>x\<close>:
  the nearest multiple of the spacing of the floats around \<open>x\<close>, a tie going to the even
  neighbour. \<open>binade fuel a\<close> is the exponent \<open>k\<close> with \<open>2 ^ k \<le> a < 2 ^ (k + 1)\<close>, found
  by halving or doubling at most \<open>fuel\<close> times. Below the smallest normal float
  \<open>2 ^ (- 1022)\<close> the spacing is \<open>2 ^ (- 1074)\<close>, so a value of magnitude at most
  \<open>2 ^ (- 1075)\<close> rounds to zero. A value of magnitude at least \<open>2 ^ 1024 - 2 ^ 970\<close>
  rounds to infinity.
\<close>

fun binade :: "nat \<Rightarrow> real \<Rightarrow> int" where
  "binade 0 a = 0"
| "binade (Suc fuel) a =
     (if 2 \<le> a then binade fuel (a / 2) + 1
      else if a < 1 then binade fuel (a * 2) - 1
      else 0)"

definition quantum :: "real \<Rightarrow> real" where
  "quantum a = (if a < 1 / 2 ^ 1022 then 1 / 2 ^ 1074 else 2 powi (binade 1100 a - 52))"

definition fl :: "real \<Rightarrow> real" where
  "fl x = of_int (round_half_even (x / quantum \<bar>x\<bar>)) * quantum \<bar>x\<bar>"

definition fl_overflows :: "real \<Rightarrow> bool" where
  "fl_overflows x \<longleftrightarrow> 2 ^ 1024 - 2 ^ 970 \<le> \<bar>x\<bar>"

subsection \<open>eps/power_model.py\<close>


subsection \<open>eps/eps_controller.py\<close>

record RoutingAllocation =
  p_excess_w :: real
  battery_charge_w :: real
  payload_w :: real
  supercap_w :: real
  shunt_w :: real
  battery_full :: bool

record EPSController =
  soc_upper_limit :: real

definition EPSController_init :: "real \<Rightarrow> error + EPSController" where
  "EPSController_init limit =
     (if \<not> (0 < limit \<and> limit \<le> 1) then
        Inl (ValueError ''soc_upper_limit must be in (0.0, 1.0]; received soc_upper_limit={}''
               [limit])
      else Inr \<lparr>soc_upper_limit = limit\<rparr>)"

definition route :: "EPSController \<Rightarrow> real \<Rightarrow> real \<Rightarrow> error + RoutingAllocation" where
  "route self p_excess current_soc =
     (if \<not> (0 \<le> current_soc \<and> current_soc \<le> 1) then
        Inl (ValueError ''current_soc must be in [0.0, 1.0]; received current_soc={}''
               [current_soc])
      else if p_excess \<le> 0 then
        Inr \<lparr>p_excess_w = p_excess, battery_charge_w = 0, payload_w = 0, supercap_w = 0,
             shunt_w = 0, battery_full = (soc_upper_limit self \<le> current_soc)\<rparr>
      else
        let remaining0 = p_excess;
            full = (soc_upper_limit self \<le> current_soc);
            charge = (if full then 0 else remaining0);
            remaining1 = remaining0 - charge;
            payload = 0;
            remaining2 = remaining1 - payload;
            supercap = 0;
            remaining3 = remaining2 - supercap;
            shunt = remaining3
        in Inr \<lparr>p_excess_w = p_excess, battery_charge_w = charge, payload_w = payload,
                supercap_w = supercap, shunt_w = shunt, battery_full = full\<rparr>)"

subsection \<open>eps/battery_model.py\<close>

record BatteryState =
  time_h :: real
  energy_wh :: real
  soc :: real
  delta_e_wh :: real

record BatteryTimeSeries =
  steps :: "BatteryState list"
  ts_dt_h :: real
  ts_duration_h :: real
  ts_capacity_wh :: real
  ts_eta :: real
  ts_p_excess_w :: real

text \<open>The private attributes \<^verbatim>\<open>_capacity_wh\<close>, \<^verbatim>\<open>_eta\<close> and \<^verbatim>\<open>_initial_energy_wh\<close>.\<close>

record BatteryModel =
  m_capacity_wh :: real
  m_eta :: real
  m_initial_energy_wh :: real

definition BatteryModel_init :: "real \<Rightarrow> real \<Rightarrow> real \<Rightarrow> error + BatteryModel" where
  "BatteryModel_init capacity initial_soc eta_c =
     (if capacity \<le> 0 then
        Inl (ValueError ''Battery capacity must be positive; received capacity_wh={}'' [capacity])
      else if \<not> (0 \<le> initial_soc \<and> initial_soc \<le> 1) then
        Inl (ValueError ''Initial SoC must be in [0.0, 1.0]; received initial_soc={}''
               [initial_soc])
      else if \<not> (0 < eta_c \<and> eta_c \<le> 1) then
        Inl (ValueError ''Charging efficiency must be in (0.0, 1.0]; received eta={}'' [eta_c])
      else
        Inr \<lparr>m_capacity_wh = capacity, m_eta = eta_c,
             m_initial_energy_wh = initial_soc * capacity\<rparr>)"

text \<open>
  \<^verbatim>\<open>_to_soc\<close> divides by the capacity. The division raises when the capacity is zero;
  \<open>simulate\<close> below tests for that before the first call, so \<open>to_soc\<close> itself is the
  plain quotient. \<open>simulate\<close> records the initial snapshot, which calls \<^verbatim>\<open>_to_soc\<close>,
  before it computes \<^verbatim>\<open>n_steps = int(duration_h / dt_h)\<close>, so the zero capacity is
  tested before the overflow of the quotient.
\<close>

definition to_soc :: "BatteryModel \<Rightarrow> real \<Rightarrow> real" where
  "to_soc self e = e / m_capacity_wh self"

definition clamp :: "BatteryModel \<Rightarrow> real \<Rightarrow> real" where
  "clamp self e = max 0 (min (m_capacity_wh self) e)"

text \<open>
  The body of the loop \<^verbatim>\<open>for _ in range(n_steps)\<close>: the arguments are the number of
  iterations left and the running \<^verbatim>\<open>energy_wh\<close> and \<^verbatim>\<open>time_h\<close>; the result is the list
  of snapshots the iterations append.
\<close>

fun euler_loop ::
  "BatteryModel \<Rightarrow> real \<Rightarrow> real \<Rightarrow> nat \<Rightarrow> real \<Rightarrow> real \<Rightarrow> BatteryState list" where
  "euler_loop self p_excess dt 0 energy time = []"
| "euler_loop self p_excess dt (Suc n) energy time =
     (let delta_e = m_eta self * p_excess * dt;
          new_energy = clamp self (energy + delta_e);
          time' = time + dt
      in \<lparr>time_h = py_round time' 10, energy_wh = new_energy,
           soc = to_soc self new_energy, delta_e_wh = delta_e\<rparr>
         # euler_loop self p_excess dt n new_energy time')"

definition simulate :: "BatteryModel \<Rightarrow> real \<Rightarrow> real \<Rightarrow> real \<Rightarrow> error + BatteryTimeSeries" where
  "simulate self p_excess dt duration =
     (if dt \<le> 0 then
        Inl (ValueError ''Timestep must be positive; received dt_h={}'' [dt])
      else if duration \<le> 0 then
        Inl (ValueError ''Duration must be positive; received duration_h={}'' [duration])
      else if duration < dt then
        Inl (ValueError ''Timestep dt_h={} exceeds duration_h={}'' [dt, duration])
      else if m_capacity_wh self = 0 then Inl ZeroDivisionError
      else if fl_overflows (duration / dt) then Inl OverflowError
      else
        let energy = m_initial_energy_wh self;
            time = 0;
            initial = \<lparr>time_h = time, energy_wh = energy, soc = to_soc self energy,
                       delta_e_wh = 0\<rparr>;
            n_steps = py_int (fl (duration / dt))
        in Inr \<lparr>steps = initial # euler_loop self p_excess dt (nat n_steps) energy time,
                ts_dt_h = dt, ts_duration_h = duration,
                ts_capacity_wh = m_capacity_wh self, ts_eta = m_eta self,
                ts_p_excess_w = p_excess\<rparr>)"

text \<open>
  The docstring example of \<^verbatim>\<open>simulate\<close>: a 100 Wh battery at 70 percent, efficiency 0.90,
  driven with 104.19 W for half an hour in steps of one minute.
\<close>

definition charge_scenario :: "error + BatteryTimeSeries" where
  "charge_scenario =
     (case BatteryModel_init 100 (70 / 100) (90 / 100) of
        Inl e \<Rightarrow> Inl e
      | Inr model \<Rightarrow> simulate model (10419 / 100) (1 / 60) (1 / 2))"

subsection \<open>eps_power_flow_simulation.py\<close>

text \<open>
  \<^verbatim>\<open>_route_step\<close> returns the tuple
  \<^verbatim>\<open>(battery_charging_w, shunt_w, new_energy, p_excess)\<close>.
\<close>

definition route_step ::
  "real \<Rightarrow> real \<Rightarrow> real \<Rightarrow> real \<Rightarrow> real \<Rightarrow> real \<Rightarrow> error + (real \<times> real \<times> real \<times> real)" where
  "route_step p_solar_w p_avionics_w battery_energy_wh eta_c capacity dt =
     (let p_excess = p_solar_w - p_avionics_w;
          remaining0 = max p_excess 0;
          e_headroom_wh = capacity - battery_energy_wh
      in if 0 < dt \<and> fl (eta_c * dt) = 0 then Inl ZeroDivisionError
         else
           let p_charge_max = (if 0 < dt then e_headroom_wh / (eta_c * dt) else 0);
               battery_charging_w = min remaining0 p_charge_max;
               remaining1 = remaining0 - battery_charging_w;
               shunt = remaining1;
               delta_e = eta_c * battery_charging_w * dt;
               new_energy = min (max (battery_energy_wh + delta_e) 0) capacity
           in Inr (battery_charging_w, shunt, new_energy, p_excess))"

section \<open>Properties\<close>

subsection \<open>Rounding to binary64\<close>

lemma binade_unique:
  "2 powi k \<le> a \<Longrightarrow> a < 2 powi (k + 1) \<Longrightarrow> nat \<bar>k\<bar> \<le> n \<Longrightarrow> binade n a = k"
proof (induction n arbitrary: a k)
  case 0
  then show ?case by simp
next
  case (Suc n)
  have less: "i < j" if "(2::real) powi i \<le> a" "a < 2 powi j" for i j
  proof (rule ccontr)
    assume "\<not> i < j"
    then have "(2::real) powi j \<le> 2 powi i"
      by (simp add: power_int_increasing)
    then show False using that by linarith
  qed
  show ?case
  proof (cases "2 \<le> a")
    case True
    then have "(2::real) powi 1 \<le> a" by simp
    then have k: "1 \<le> k" using less [of 1 "k + 1"] Suc.prems by simp
    have "2 powi (k - 1) \<le> a / 2" "a / 2 < 2 powi (k - 1 + 1)"
      using Suc.prems(1,2) by (simp_all add: power_int_diff power_int_add)
    moreover have "nat \<bar>k - 1\<bar> \<le> n" using k Suc.prems(3) by simp
    ultimately have "binade n (a / 2) = k - 1" by (rule Suc.IH)
    then show ?thesis using True by simp
  next
    case False
    show ?thesis
    proof (cases "a < 1")
      case True
      then have "a < 2 powi 0" by simp
      then have k: "k < 0" using less [of k 0] Suc.prems by simp
      have "2 powi (k + 1) \<le> a * 2" "a * 2 < 2 powi (k + 1 + 1)"
        using Suc.prems(1,2) by (simp_all add: power_int_add)
      moreover have "nat \<bar>k + 1\<bar> \<le> n" using k Suc.prems(3) by simp
      ultimately have "binade n (a * 2) = k + 1" by (rule Suc.IH)
      then show ?thesis using True False by simp
    next
      case F2: False
      have "(2::real) powi 0 \<le> a" "a < 2 powi 1" using False F2 by simp_all
      then have "0 < k + 1" "k < 1"
        using less [of 0 "k + 1"] less [of k 1] Suc.prems by simp_all
      then have "k = 0" by simp
      then show ?thesis using False F2 by simp
    qed
  qed
qed


lemma binade_le: "1 / 2 ^ n \<le> a \<Longrightarrow> 2 powi (binade n a) \<le> a"
proof (induction n arbitrary: a)
  case 0
  then show ?case by simp
next
  case (Suc n)
  show ?case
  proof (cases "2 \<le> a")
    case True
    have "1 / 2 ^ n \<le> (1::real)" by (simp add: divide_le_eq)
    then have "1 / 2 ^ n \<le> a / 2" using True by linarith
    then have "2 powi (binade n (a / 2)) \<le> a / 2" by (rule Suc.IH)
    then show ?thesis using True by (simp add: power_int_add)
  next
    case False
    show ?thesis
    proof (cases "a < 1")
      case True
      have "1 / 2 ^ n \<le> a * 2" using Suc.prems by (simp add: field_simps)
      then have "2 powi (binade n (a * 2)) \<le> a * 2" by (rule Suc.IH)
      then show ?thesis using True False by (simp add: power_int_diff)
    next
      case F2: False
      then show ?thesis using False by simp
    qed
  qed
qed

lemma quantum_pos: "0 < quantum a"
  by (simp add: quantum_def)

lemma round_half_even_nonneg: "0 \<le> x \<Longrightarrow> 0 \<le> round_half_even x"
  by (auto simp: round_half_even_def Let_def)

lemma fl_nonneg: "0 \<le> x \<Longrightarrow> 0 \<le> fl x"
  using quantum_pos [of "\<bar>x\<bar>"] by (simp add: fl_def round_half_even_nonneg)

lemma round_half_even_eq_0_iff: "round_half_even y = 0 \<longleftrightarrow> \<bar>y\<bar> \<le> 1 / 2"
proof -
  define f where "f = \<lfloor>y\<rfloor>"
  have b: "of_int f \<le> y" "y < of_int f + 1"
    unfolding f_def by linarith+
  have r: "round_half_even y =
     (if y - of_int f < 1 / 2 then f
      else if 1 / 2 < y - of_int f then f + 1
      else if even f then f else f + 1)"
    by (simp add: round_half_even_def Let_def f_def)
  consider "f \<le> - 2" | "f = - 1" | "f = 0" | "1 \<le> f"
    by linarith
  then show ?thesis
  proof cases
    case 1
    then have "real_of_int f \<le> - 2" by linarith
    then have "y < - 1" using b by linarith
    moreover have "round_half_even y \<le> f + 1" by (simp add: r)
    ultimately show ?thesis using 1 by auto
  next
    case 2
    then show ?thesis using b by (auto simp: r)
  next
    case 3
    then show ?thesis using b by (auto simp: r)
  next
    case 4
    then have "1 \<le> real_of_int f" by linarith
    then have "1 \<le> y" using b by linarith
    moreover have "f \<le> round_half_even y" by (simp add: r)
    ultimately show ?thesis using 4 by auto
  qed
qed

lemma fl_eq_0_iff: "fl x = 0 \<longleftrightarrow> \<bar>x\<bar> \<le> 1 / 2 ^ 1075"
proof (cases "\<bar>x\<bar> < 1 / 2 ^ 1022")
  case True
  have "fl x = 0 \<longleftrightarrow> \<bar>x * 2 ^ 1074\<bar> \<le> 1 / 2"
    using True by (simp add: fl_def quantum_def round_half_even_eq_0_iff)
  also have "\<dots> \<longleftrightarrow> \<bar>x\<bar> * 2 ^ 1074 \<le> 1 / 2"
    by (simp add: abs_mult)
  also have "\<dots> \<longleftrightarrow> \<bar>x\<bar> \<le> 1 / 2 ^ 1075"
    by (simp add: field_simps)
  finally show ?thesis .
next
  case False
  let ?q = "quantum \<bar>x\<bar>"
  have big: "1 / 2 ^ 1022 \<le> \<bar>x\<bar>" using False by simp
  have "(1::real) / 2 ^ 1100 \<le> 1 / 2 ^ 1022"
    by (simp add: field_simps)
  then have "2 powi (binade 1100 \<bar>x\<bar>) \<le> \<bar>x\<bar>"
    using big by (intro binade_le) linarith
  then have "?q * 2 ^ 52 \<le> \<bar>x\<bar>"
    using False by (simp add: quantum_def power_int_diff)
  moreover have "0 < ?q" by (rule quantum_pos)
  ultimately have "1 \<le> \<bar>x\<bar> / ?q"
    by (simp add: field_simps)
  then have "\<not> \<bar>x / ?q\<bar> \<le> 1 / 2"
    using \<open>0 < ?q\<close> by (simp add: abs_divide)
  then have "fl x \<noteq> 0"
    using \<open>0 < ?q\<close> by (simp add: fl_def round_half_even_eq_0_iff)
  moreover have "(1::real) / 2 ^ 1075 < 1 / 2 ^ 1022"
    by (simp add: field_simps)
  ultimately show ?thesis using big by simp
qed

lemma fl_normal:
  assumes "2 powi k \<le> \<bar>x\<bar>" and "\<bar>x\<bar> < 2 powi (k + 1)" and "- 1022 \<le> k" and "k \<le> 1100"
  shows "fl x = of_int (round_half_even (x / 2 powi (k - 52))) * 2 powi (k - 52)"
proof -
  have "(2::real) powi (- 1022) \<le> 2 powi k"
    by (rule power_int_increasing) (use assms(3) in simp_all)
  moreover have "(2::real) powi (- 1022) = 1 / 2 ^ 1022"
    by (simp add: power_int_minus_divide)
  ultimately have "\<not> \<bar>x\<bar> < 1 / 2 ^ 1022"
    using assms(1) by linarith
  moreover have "binade 1100 \<bar>x\<bar> = k"
    using assms by (intro binade_unique) simp_all
  ultimately show ?thesis
    by (simp add: fl_def quantum_def)
qed

lemma fl_30: "fl 30 = 30"
  using fl_normal [of 4 30] by (simp add: round_half_even_def)

lemma fl_2: "fl 2 = 2"
  using fl_normal [of 1 2] by (simp add: round_half_even_def)


lemma fl_tenth: "fl (1 / (3602879701896397 / 36028797018963968)) = 10"
  using fl_normal [of 3 "1 / (3602879701896397 / 36028797018963968)"]
  by (simp add: round_half_even_def)

subsection \<open>Charging time\<close>




subsection \<open>The routing cascade\<close>

text \<open>
  Claim C1. For a controller built with a limit in \<open>(0, 1]\<close> and a state of charge in
  \<open>[0, 1]\<close>, \<open>route\<close> returns an allocation; when the excess power is positive the
  four sinks add up to it, and when it is zero or negative the four sinks are all zero.
\<close>

theorem route_conservation:
  assumes "EPSController_init limit = Inr ctrl"
    and "0 \<le> current_soc" and "current_soc \<le> 1"
  shows "\<exists>a. route ctrl p current_soc = Inr a
           \<and> (0 < p \<longrightarrow> battery_charge_w a + payload_w a + supercap_w a + shunt_w a = p)
           \<and> (p \<le> 0 \<longrightarrow> battery_charge_w a = 0 \<and> payload_w a = 0
                          \<and> supercap_w a = 0 \<and> shunt_w a = 0)"
  using assms by (simp add: route_def Let_def)

theorem route_conservation_witness:
  "EPSController_init 1 = Inr \<lparr>soc_upper_limit = 1\<rparr>
   \<and> (\<exists>a. route \<lparr>soc_upper_limit = 1\<rparr> 5 (1 / 2) = Inr a
          \<and> battery_charge_w a + payload_w a + supercap_w a + shunt_w a = 5)
   \<and> (\<exists>a. route \<lparr>soc_upper_limit = 1\<rparr> (- 3) (1 / 2) = Inr a
          \<and> battery_charge_w a = 0 \<and> payload_w a = 0 \<and> supercap_w a = 0 \<and> shunt_w a = 0)"
proof -
  have c: "EPSController_init 1 = Inr \<lparr>soc_upper_limit = 1\<rparr>"
    by (simp add: EPSController_init_def)
  have s: "(0::real) \<le> 1 / 2" "(1 / 2::real) \<le> 1" by simp_all
  show ?thesis
    using c route_conservation [OF c s, of 5] route_conservation [OF c s, of "- 3"]
    by simp
qed

text \<open>
  Claim C3, as stated: for any excess power, positive or not, the battery share is zero
  if and only if the state of charge has reached the limit. It fails in a deficit: with
  the limit at 1, an excess of -10 W and a state of charge of 0.5 the battery share is
  zero although the state of charge is below the limit.
\<close>

theorem route_gating_counterexample:
  "EPSController_init 1 = Inr \<lparr>soc_upper_limit = 1\<rparr>
   \<and> route \<lparr>soc_upper_limit = 1\<rparr> (- 10) (1 / 2)
       = Inr \<lparr>p_excess_w = - 10, battery_charge_w = 0, payload_w = 0, supercap_w = 0,
              shunt_w = 0, battery_full = False\<rparr>
   \<and> \<not> (soc_upper_limit \<lparr>soc_upper_limit = 1\<rparr> \<le> 1 / 2)"
  by (simp add: EPSController_init_def route_def)

text \<open>
  Claim C3, amended: the battery share is zero if and only if the excess power is zero
  or negative or the state of charge has reached the limit; so for a positive excess it
  is zero exactly when the state of charge is at or above the limit.
\<close>

theorem route_gating:
  assumes "EPSController_init limit = Inr ctrl"
    and "0 \<le> current_soc" and "current_soc \<le> 1"
  shows "\<exists>a. route ctrl p current_soc = Inr a
           \<and> (battery_charge_w a = 0 \<longleftrightarrow> (p \<le> 0 \<or> soc_upper_limit ctrl \<le> current_soc))
           \<and> soc_upper_limit ctrl = limit"
  using assms by (auto simp: route_def Let_def EPSController_init_def split: if_splits)

theorem route_gating_witness:
  "EPSController_init (95 / 100) = Inr \<lparr>soc_upper_limit = 95 / 100\<rparr>
   \<and> (\<exists>a. route \<lparr>soc_upper_limit = 95 / 100\<rparr> 50 (7 / 10) = Inr a \<and> battery_charge_w a \<noteq> 0)
   \<and> (\<exists>a. route \<lparr>soc_upper_limit = 95 / 100\<rparr> 50 1 = Inr a \<and> battery_charge_w a = 0)
   \<and> (\<exists>a. route \<lparr>soc_upper_limit = 95 / 100\<rparr> (- 10) (7 / 10) = Inr a \<and> battery_charge_w a = 0)"
proof -
  have c: "EPSController_init (95 / 100) = Inr \<lparr>soc_upper_limit = 95 / 100\<rparr>"
    by (simp add: EPSController_init_def)
  have s: "(0::real) \<le> 7 / 10" "(7 / 10::real) \<le> 1" by simp_all
  have s1: "(0::real) \<le> 1" "(1::real) \<le> 1" by simp_all
  show ?thesis
    using c route_gating [OF c s, of 50] route_gating [OF c s1, of 50]
      route_gating [OF c s, of "- 10"]
    by simp
qed

subsection \<open>The coupled step\<close>





text \<open>
  Claim C10, as stated: in a deficit the step returns zero charging, zero shunt and the
  stored energy unchanged for every positive timestep and efficiency in \<open>(0, 1]\<close>. The
  quotient by \<^verbatim>\<open>eta * dt_h\<close> is evaluated in a deficit too, so with a timestep and an
  efficiency of \<open>2 ^ (- 600)\<close>, whose float product is zero, the step raises
  \<^verbatim>\<open>ZeroDivisionError\<close> and returns nothing.
\<close>

theorem route_step_deficit_underflow_counterexample:
  "(0 :: real) \<le> 70 \<and> (70 :: real) \<le> 100 \<and> 0 < (1 / 2 ^ 600 :: real)
   \<and> (1 / 2 ^ 600 :: real) \<le> 1 \<and> (50 :: real) \<le> 80
   \<and> route_step 50 80 70 (1 / 2 ^ 600) 100 (1 / 2 ^ 600) = Inl ZeroDivisionError"
  by (simp add: route_step_def fl_eq_0_iff)

text \<open>
  Claim C10, amended. In the coupled step, with the stored energy in \<open>[0, capacity]\<close>, a
  positive timestep and an efficiency in \<open>(0, 1]\<close> whose float product is not zero, a
  solar power that does not exceed the avionics load gives a charging power of 0, a
  shunt power of 0 and the stored energy unchanged: a deficit never discharges the
  battery.
\<close>

theorem route_step_deficit:
  assumes "0 \<le> e" and "e \<le> capacity" and "0 < dt" and "0 < eta_c" and "eta_c \<le> 1"
    and "fl (eta_c * dt) \<noteq> 0"
    and "p_solar \<le> p_avionics"
  shows "route_step p_solar p_avionics e eta_c capacity dt
           = Inr (0, 0, e, p_solar - p_avionics)"
  using assms by (simp add: route_step_def Let_def max_def min_def)

theorem route_step_deficit_witness:
  "fl (9 / 10 * (1 / 60)) \<noteq> 0
   \<and> route_step 50 80 70 (9 / 10) 100 (1 / 60) = Inr (0, 0, 70, - 30)"
proof -
  have nz: "fl (9 / 10 * (1 / 60)) \<noteq> 0"
    by (simp add: fl_eq_0_iff)
  show ?thesis
    using nz route_step_deficit [of 70 100 "1 / 60" "9 / 10" 50 80] by simp
qed

subsection \<open>The battery integrator\<close>

lemma length_euler_loop: "length (euler_loop m p dt n e t) = n"
  by (induction n arbitrary: e t) (simp_all add: Let_def)

lemma clamp_bounds:
  "0 \<le> m_capacity_wh m \<Longrightarrow> 0 \<le> clamp m x \<and> clamp m x \<le> m_capacity_wh m"
  by (simp add: clamp_def)

lemma euler_loop_energy_bounds:
  assumes "0 \<le> m_capacity_wh m"
  shows "s \<in> set (euler_loop m p dt n e t)
           \<Longrightarrow> 0 \<le> energy_wh s \<and> energy_wh s \<le> m_capacity_wh m"
proof (induction n arbitrary: e t)
  case 0
  then show ?case by simp
next
  case (Suc n)
  then show ?case
    using clamp_bounds [OF assms] by (auto simp: Let_def)
qed

lemma py_int_nonneg: "0 \<le> x \<Longrightarrow> py_int x = \<lfloor>x\<rfloor>"
  by (simp add: py_int_def)

lemma BatteryModel_init_InrD:
  assumes "BatteryModel_init capacity initial_soc eta_c = Inr m"
  shows "0 < capacity" and "0 \<le> initial_soc" and "initial_soc \<le> 1"
    and "0 < eta_c" and "eta_c \<le> 1"
    and "m = \<lparr>m_capacity_wh = capacity, m_eta = eta_c,
               m_initial_energy_wh = initial_soc * capacity\<rparr>"
  using assms by (auto simp: BatteryModel_init_def split: if_splits)

lemma simulate_Inr:
  assumes "0 < dt" and "0 < duration" and "dt \<le> duration" and "m_capacity_wh m \<noteq> 0"
    and "\<not> fl_overflows (duration / dt)"
  shows "simulate m p dt duration =
     Inr \<lparr>steps = \<lparr>time_h = 0, energy_wh = m_initial_energy_wh m,
                    soc = to_soc m (m_initial_energy_wh m), delta_e_wh = 0\<rparr>
                  # euler_loop m p dt (nat \<lfloor>fl (duration / dt)\<rfloor>) (m_initial_energy_wh m) 0,
          ts_dt_h = dt, ts_duration_h = duration, ts_capacity_wh = m_capacity_wh m,
          ts_eta = m_eta m, ts_p_excess_w = p\<rparr>"
proof -
  have "0 \<le> fl (duration / dt)"
    using assms(1,2) by (intro fl_nonneg) simp
  then show ?thesis
    using assms by (simp add: simulate_def Let_def py_int_nonneg)
qed

lemma simulate_InrD:
  assumes "simulate m p dt duration = Inr ts"
  shows "0 < dt" and "0 < duration" and "dt \<le> duration" and "m_capacity_wh m \<noteq> 0"
    and "\<not> fl_overflows (duration / dt)"
  using assms by (auto simp: simulate_def split: if_splits)

text \<open>
  Claim C2. For an integrator built with a positive capacity, an initial state of charge
  in \<open>[0, 1]\<close> and an efficiency in \<open>(0, 1]\<close>, every snapshot of a series that
  \<open>simulate\<close> returns, the initial one included, has a stored energy between 0 and the
  capacity, whatever the sign of the drive power.
\<close>

theorem simulate_energy_bounds:
  assumes "BatteryModel_init capacity initial_soc eta_c = Inr m"
    and "simulate m p dt duration = Inr ts"
  shows "\<forall>s \<in> set (steps ts). 0 \<le> energy_wh s \<and> energy_wh s \<le> capacity"
proof -
  note i = BatteryModel_init_InrD [OF assms(1)]
  note d = simulate_InrD [OF assms(2)]
  have cap: "m_capacity_wh m = capacity" and e0: "m_initial_energy_wh m = initial_soc * capacity"
    using i(6) by simp_all
  have ts: "steps ts = \<lparr>time_h = 0, energy_wh = m_initial_energy_wh m,
                    soc = to_soc m (m_initial_energy_wh m), delta_e_wh = 0\<rparr>
                  # euler_loop m p dt (nat \<lfloor>fl (duration / dt)\<rfloor>) (m_initial_energy_wh m) 0"
    using assms(2) simulate_Inr [OF d, of p] by auto
  have "0 \<le> initial_soc * capacity"
    using i(1,2) by simp
  moreover have "initial_soc * capacity \<le> capacity"
    using i(1,3) by (simp add: mult_left_le_one_le)
  moreover have "0 \<le> m_capacity_wh m"
    using i(1) cap by simp
  ultimately show ?thesis
    using euler_loop_energy_bounds [of m _ p dt] by (auto simp: ts cap e0)
qed

theorem simulate_energy_bounds_witness:
  "BatteryModel_init 100 (7 / 10) (9 / 10)
     = Inr \<lparr>m_capacity_wh = 100, m_eta = 9 / 10, m_initial_energy_wh = 70\<rparr>
   \<and> map energy_wh (steps (projr (simulate
         \<lparr>m_capacity_wh = 100, m_eta = 9 / 10, m_initial_energy_wh = 70\<rparr> 20 1 2)))
       = [70, 88, 100]
   \<and> 0 \<le> energy_wh (last (steps (projr (simulate
         \<lparr>m_capacity_wh = 100, m_eta = 9 / 10, m_initial_energy_wh = 70\<rparr> 20 1 2))))
   \<and> energy_wh (last (steps (projr (simulate
         \<lparr>m_capacity_wh = 100, m_eta = 9 / 10, m_initial_energy_wh = 70\<rparr> 20 1 2)))) \<le> 100"
proof -
  let ?m = "\<lparr>m_capacity_wh = 100, m_eta = 9 / 10, m_initial_energy_wh = 70\<rparr>"
  let ?ts = "projr (simulate ?m 20 1 2)"
  have c: "BatteryModel_init 100 (7 / 10) (9 / 10) = Inr ?m"
    by (simp add: BatteryModel_init_def)
  have n: "nat (py_int (2 / 1)) = Suc (Suc 0)"
    by (simp add: py_int_def)
  have r: "simulate ?m 20 1 2 = Inr ?ts"
    by (simp add: simulate_def fl_overflows_def)
  have e: "map energy_wh (steps ?ts) = [70, 88, 100]"
    using n by (simp add: simulate_def fl_overflows_def fl_2 Let_def clamp_def)
  then have "steps ?ts \<noteq> []"
    by auto
  then have "last (steps ?ts) \<in> set (steps ?ts)"
    by simp
  then have "0 \<le> energy_wh (last (steps ?ts)) \<and> energy_wh (last (steps ?ts)) \<le> 100"
    using simulate_energy_bounds [OF c r] by blast
  then show ?thesis
    using c e by simp
qed

text \<open>
  Claim C6. A call of \<open>simulate\<close> on a constructed integrator succeeds exactly when the
  timestep is positive and does not exceed the positive duration (and the float
  quotient does not overflow); every series it returns has exactly
  \<open>floor (duration / dt) + 1\<close> snapshots, the quotient being the float quotient that the
  program computes, and its first snapshot has time 0 and energy increment 0.
\<close>

theorem simulate_length:
  assumes "BatteryModel_init capacity initial_soc eta_c = Inr m"
  shows "((\<exists>ts. simulate m p dt duration = Inr ts)
            \<longleftrightarrow> (0 < dt \<and> 0 < duration \<and> dt \<le> duration \<and> \<not> fl_overflows (duration / dt)))
         \<and> (\<forall>ts. simulate m p dt duration = Inr ts \<longrightarrow>
               int (length (steps ts)) = \<lfloor>fl (duration / dt)\<rfloor> + 1
               \<and> time_h (hd (steps ts)) = 0 \<and> delta_e_wh (hd (steps ts)) = 0)"
proof -
  have cap: "m_capacity_wh m \<noteq> 0"
    using BatteryModel_init_InrD(1,6) [OF assms] by simp
  have succeeds: "(\<exists>ts. simulate m p dt duration = Inr ts)
            \<longleftrightarrow> (0 < dt \<and> 0 < duration \<and> dt \<le> duration \<and> \<not> fl_overflows (duration / dt))"
    using cap by (auto simp: simulate_def Let_def)
  have series: "int (length (steps ts)) = \<lfloor>fl (duration / dt)\<rfloor> + 1
               \<and> time_h (hd (steps ts)) = 0 \<and> delta_e_wh (hd (steps ts)) = 0"
    if "simulate m p dt duration = Inr ts" for ts
  proof -
    note d = simulate_InrD [OF that]
    have "0 \<le> fl (duration / dt)"
      using d(1,2) by (intro fl_nonneg) simp
    then have "0 \<le> \<lfloor>fl (duration / dt)\<rfloor>"
      by simp
    then show ?thesis
      using that simulate_Inr [OF d, of p] by (auto simp: length_euler_loop)
  qed
  show ?thesis
    using succeeds series by blast
qed

theorem simulate_length_witness:
  "BatteryModel_init 100 (7 / 10) (9 / 10)
     = Inr \<lparr>m_capacity_wh = 100, m_eta = 9 / 10, m_initial_energy_wh = 70\<rparr>
   \<and> fl (1 / (3602879701896397 / 36028797018963968)) = 10
   \<and> (\<exists>ts. simulate \<lparr>m_capacity_wh = 100, m_eta = 9 / 10, m_initial_energy_wh = 70\<rparr>
               20 (3602879701896397 / 36028797018963968) 1 = Inr ts
          \<and> length (steps ts) = 11
          \<and> time_h (hd (steps ts)) = 0 \<and> delta_e_wh (hd (steps ts)) = 0)"
proof -
  let ?m = "\<lparr>m_capacity_wh = 100, m_eta = 9 / 10, m_initial_energy_wh = 70\<rparr>"
  have c: "BatteryModel_init 100 (7 / 10) (9 / 10) = Inr ?m"
    by (simp add: BatteryModel_init_def)
  have o: "\<not> fl_overflows (1 / (3602879701896397 / 36028797018963968))"
    by (simp add: fl_overflows_def)
  show ?thesis
    using c o fl_tenth simulate_length [OF c, of 20 "3602879701896397 / 36028797018963968" 1]
    by auto
qed

text \<open>
  Claim C7. On a constructed integrator \<open>simulate\<close> raises \<^verbatim>\<open>ValueError\<close> if and only if
  the timestep is not positive, the duration is not positive, or the timestep exceeds
  the duration. The three checks run in this order and each raises with a message of
  its own, so the message names a bound that is violated (the first one in this order
  when several are). A failure is an exception and carries no series. When the three
  bounds hold the call either returns the complete series, the initial snapshot followed
  by one snapshot for each of the \<^verbatim>\<open>n_steps\<close> iterations, or, when the float quotient
  overflows, raises \<^verbatim>\<open>OverflowError\<close> from \<^verbatim>\<open>int()\<close>.
\<close>

theorem simulate_guards:
  assumes "BatteryModel_init capacity initial_soc eta_c = Inr m"
  shows "((\<exists>msg vals. simulate m p dt duration = Inl (ValueError msg vals))
            \<longleftrightarrow> (dt \<le> 0 \<or> duration \<le> 0 \<or> duration < dt))
     \<and> (dt \<le> 0 \<longrightarrow> simulate m p dt duration
           = Inl (ValueError ''Timestep must be positive; received dt_h={}'' [dt]))
     \<and> (0 < dt \<and> duration \<le> 0 \<longrightarrow> simulate m p dt duration
           = Inl (ValueError ''Duration must be positive; received duration_h={}'' [duration]))
     \<and> (0 < dt \<and> 0 < duration \<and> duration < dt \<longrightarrow> simulate m p dt duration
           = Inl (ValueError ''Timestep dt_h={} exceeds duration_h={}'' [dt, duration]))
     \<and> (\<forall>vals. simulate m p dt duration
            = Inl (ValueError ''Timestep must be positive; received dt_h={}'' vals)
          \<longrightarrow> dt \<le> 0)
     \<and> (\<forall>vals. simulate m p dt duration
            = Inl (ValueError ''Duration must be positive; received duration_h={}'' vals)
          \<longrightarrow> duration \<le> 0)
     \<and> (\<forall>vals. simulate m p dt duration
            = Inl (ValueError ''Timestep dt_h={} exceeds duration_h={}'' vals)
          \<longrightarrow> duration < dt)
     \<and> (0 < dt \<and> 0 < duration \<and> dt \<le> duration \<and> \<not> fl_overflows (duration / dt) \<longrightarrow>
          (\<exists>ts. simulate m p dt duration = Inr ts
             \<and> steps ts = \<lparr>time_h = 0, energy_wh = m_initial_energy_wh m,
                             soc = to_soc m (m_initial_energy_wh m), delta_e_wh = 0\<rparr>
                  # euler_loop m p dt (nat (py_int (fl (duration / dt))))
                      (m_initial_energy_wh m) 0
             \<and> length (steps ts) = Suc (nat (py_int (fl (duration / dt))))))
     \<and> (0 < dt \<and> 0 < duration \<and> dt \<le> duration \<and> fl_overflows (duration / dt) \<longrightarrow>
          simulate m p dt duration = Inl OverflowError)"
proof -
  have cap: "m_capacity_wh m \<noteq> 0"
    using BatteryModel_init_InrD(1,6) [OF assms] by simp
  have fails: "(\<exists>msg vals. simulate m p dt duration = Inl (ValueError msg vals))
                 \<longleftrightarrow> (dt \<le> 0 \<or> duration \<le> 0 \<or> duration < dt)"
    using cap by (simp add: simulate_def Let_def)
  have ok: "\<exists>ts. simulate m p dt duration = Inr ts
             \<and> steps ts = \<lparr>time_h = 0, energy_wh = m_initial_energy_wh m,
                             soc = to_soc m (m_initial_energy_wh m), delta_e_wh = 0\<rparr>
                  # euler_loop m p dt (nat (py_int (fl (duration / dt))))
                      (m_initial_energy_wh m) 0
             \<and> length (steps ts) = Suc (nat (py_int (fl (duration / dt))))"
    if "0 < dt" "0 < duration" "dt \<le> duration" "\<not> fl_overflows (duration / dt)"
    using that cap by (simp add: simulate_def Let_def length_euler_loop)
  have over: "simulate m p dt duration = Inl OverflowError"
    if "0 < dt" "0 < duration" "dt \<le> duration" "fl_overflows (duration / dt)"
    using that cap by (simp add: simulate_def)
  have names: "(\<forall>vals. simulate m p dt duration
            = Inl (ValueError ''Timestep must be positive; received dt_h={}'' vals)
          \<longrightarrow> dt \<le> 0)
     \<and> (\<forall>vals. simulate m p dt duration
            = Inl (ValueError ''Duration must be positive; received duration_h={}'' vals)
          \<longrightarrow> duration \<le> 0)
     \<and> (\<forall>vals. simulate m p dt duration
            = Inl (ValueError ''Timestep dt_h={} exceeds duration_h={}'' vals)
          \<longrightarrow> duration < dt)"
    by (auto simp: simulate_def Let_def split: if_splits)
  have raised: "(dt \<le> 0 \<longrightarrow> simulate m p dt duration
           = Inl (ValueError ''Timestep must be positive; received dt_h={}'' [dt]))
     \<and> (0 < dt \<and> duration \<le> 0 \<longrightarrow> simulate m p dt duration
           = Inl (ValueError ''Duration must be positive; received duration_h={}'' [duration]))
     \<and> (0 < dt \<and> 0 < duration \<and> duration < dt \<longrightarrow> simulate m p dt duration
           = Inl (ValueError ''Timestep dt_h={} exceeds duration_h={}'' [dt, duration]))"
    by (simp add: simulate_def)
  show ?thesis
    using fails ok over names raised by blast
qed

theorem simulate_guards_witness:
  "simulate \<lparr>m_capacity_wh = 100, m_eta = 9 / 10, m_initial_energy_wh = 70\<rparr> 20 0 2
     = Inl (ValueError ''Timestep must be positive; received dt_h={}'' [0])
   \<and> simulate \<lparr>m_capacity_wh = 100, m_eta = 9 / 10, m_initial_energy_wh = 70\<rparr> 20 1 0
     = Inl (ValueError ''Duration must be positive; received duration_h={}'' [0])
   \<and> simulate \<lparr>m_capacity_wh = 100, m_eta = 9 / 10, m_initial_energy_wh = 70\<rparr> 20 2 1
     = Inl (ValueError ''Timestep dt_h={} exceeds duration_h={}'' [2, 1])
   \<and> (\<exists>ts. simulate \<lparr>m_capacity_wh = 100, m_eta = 9 / 10, m_initial_energy_wh = 70\<rparr> 20 1 2
          = Inr ts \<and> length (steps ts) = 3)
   \<and> simulate \<lparr>m_capacity_wh = 100, m_eta = 9 / 10, m_initial_energy_wh = 70\<rparr> 20
       (1 / 2 ^ 600) (2 ^ 600) = Inl OverflowError"
proof -
  let ?m = "\<lparr>m_capacity_wh = 100, m_eta = 9 / 10, m_initial_energy_wh = 70\<rparr>"
  have c: "BatteryModel_init 100 (7 / 10) (9 / 10) = Inr ?m"
    by (simp add: BatteryModel_init_def)
  have n: "nat (py_int (fl (2 / 1))) = 2"
    by (simp add: fl_2 py_int_def)
  have o: "\<not> fl_overflows (2 / 1)" "fl_overflows (2 ^ 600 / (1 / 2 ^ 600))"
    by (simp_all add: fl_overflows_def)
  have g: "(0::real) < 1 / 2 ^ 600" "(0::real) < 2 ^ 600" "(1 / 2 ^ 600 :: real) \<le> 2 ^ 600"
    by simp_all
  show ?thesis
    using n o g simulate_guards [OF c, of 20 0 2] simulate_guards [OF c, of 20 1 0]
      simulate_guards [OF c, of 20 2 1] simulate_guards [OF c, of 20 1 2]
      simulate_guards [OF c, of 20 "1 / 2 ^ 600" "2 ^ 600"]
    by auto
qed

subsection \<open>Recorded times\<close>
















subsection \<open>The battery charge scenario\<close>

lemma euler_loop_numeral:
  "euler_loop m p dt (numeral k) e t =
     \<lparr>time_h = py_round (t + dt) 10, energy_wh = clamp m (e + m_eta m * p * dt),
      soc = to_soc m (clamp m (e + m_eta m * p * dt)), delta_e_wh = m_eta m * p * dt\<rparr>
     # euler_loop m p dt (pred_numeral k) (clamp m (e + m_eta m * p * dt)) (t + dt)"
  by (simp add: numeral_eq_Suc Let_def)

lemma py_round_10:
  "py_round x 10 = of_int (round_half_even (x * 10000000000)) / 10000000000"
  by (simp add: py_round_def)

lemma charge_scenario_loop:
  "euler_loop \<lparr>m_capacity_wh = 100, m_eta = 9 / 10, m_initial_energy_wh = 70\<rparr>
     (10419 / 100) (1 / 60) 30 70 0 =
     [\<lparr>time_h = 166666667 / 10000000000, energy_wh = 1431257 / 20000, soc = 1431257 / 2000000, delta_e_wh = 31257 / 20000\<rparr>,
      \<lparr>time_h = 333333333 / 10000000000, energy_wh = 731257 / 10000, soc = 731257 / 1000000, delta_e_wh = 31257 / 20000\<rparr>,
      \<lparr>time_h = 1 / 20, energy_wh = 1493771 / 20000, soc = 1493771 / 2000000, delta_e_wh = 31257 / 20000\<rparr>,
      \<lparr>time_h = 666666667 / 10000000000, energy_wh = 381257 / 5000, soc = 381257 / 500000, delta_e_wh = 31257 / 20000\<rparr>,
      \<lparr>time_h = 833333333 / 10000000000, energy_wh = 311257 / 4000, soc = 311257 / 400000, delta_e_wh = 31257 / 20000\<rparr>,
      \<lparr>time_h = 1 / 10, energy_wh = 793771 / 10000, soc = 793771 / 1000000, delta_e_wh = 31257 / 20000\<rparr>,
      \<lparr>time_h = 1166666667 / 10000000000, energy_wh = 1618799 / 20000, soc = 1618799 / 2000000, delta_e_wh = 31257 / 20000\<rparr>,
      \<lparr>time_h = 1333333333 / 10000000000, energy_wh = 206257 / 2500, soc = 206257 / 250000, delta_e_wh = 31257 / 20000\<rparr>,
      \<lparr>time_h = 3 / 20, energy_wh = 1681313 / 20000, soc = 1681313 / 2000000, delta_e_wh = 31257 / 20000\<rparr>,
      \<lparr>time_h = 1666666667 / 10000000000, energy_wh = 171257 / 2000, soc = 171257 / 200000, delta_e_wh = 31257 / 20000\<rparr>,
      \<lparr>time_h = 1833333333 / 10000000000, energy_wh = 1743827 / 20000, soc = 1743827 / 2000000, delta_e_wh = 31257 / 20000\<rparr>,
      \<lparr>time_h = 1 / 5, energy_wh = 443771 / 5000, soc = 443771 / 500000, delta_e_wh = 31257 / 20000\<rparr>,
      \<lparr>time_h = 2166666667 / 10000000000, energy_wh = 1806341 / 20000, soc = 1806341 / 2000000, delta_e_wh = 31257 / 20000\<rparr>,
      \<lparr>time_h = 2333333333 / 10000000000, energy_wh = 918799 / 10000, soc = 918799 / 1000000, delta_e_wh = 31257 / 20000\<rparr>,
      \<lparr>time_h = 1 / 4, energy_wh = 373771 / 4000, soc = 373771 / 400000, delta_e_wh = 31257 / 20000\<rparr>,
      \<lparr>time_h = 2666666667 / 10000000000, energy_wh = 118757 / 1250, soc = 118757 / 125000, delta_e_wh = 31257 / 20000\<rparr>,
      \<lparr>time_h = 2833333333 / 10000000000, energy_wh = 1931369 / 20000, soc = 1931369 / 2000000, delta_e_wh = 31257 / 20000\<rparr>,
      \<lparr>time_h = 3 / 10, energy_wh = 981313 / 10000, soc = 981313 / 1000000, delta_e_wh = 31257 / 20000\<rparr>,
      \<lparr>time_h = 3166666667 / 10000000000, energy_wh = 1993883 / 20000, soc = 1993883 / 2000000, delta_e_wh = 31257 / 20000\<rparr>,
      \<lparr>time_h = 3333333333 / 10000000000, energy_wh = 100, soc = 1, delta_e_wh = 31257 / 20000\<rparr>,
      \<lparr>time_h = 7 / 20, energy_wh = 100, soc = 1, delta_e_wh = 31257 / 20000\<rparr>,
      \<lparr>time_h = 3666666667 / 10000000000, energy_wh = 100, soc = 1, delta_e_wh = 31257 / 20000\<rparr>,
      \<lparr>time_h = 3833333333 / 10000000000, energy_wh = 100, soc = 1, delta_e_wh = 31257 / 20000\<rparr>,
      \<lparr>time_h = 2 / 5, energy_wh = 100, soc = 1, delta_e_wh = 31257 / 20000\<rparr>,
      \<lparr>time_h = 4166666667 / 10000000000, energy_wh = 100, soc = 1, delta_e_wh = 31257 / 20000\<rparr>,
      \<lparr>time_h = 4333333333 / 10000000000, energy_wh = 100, soc = 1, delta_e_wh = 31257 / 20000\<rparr>,
      \<lparr>time_h = 9 / 20, energy_wh = 100, soc = 1, delta_e_wh = 31257 / 20000\<rparr>,
      \<lparr>time_h = 4666666667 / 10000000000, energy_wh = 100, soc = 1, delta_e_wh = 31257 / 20000\<rparr>,
      \<lparr>time_h = 4833333333 / 10000000000, energy_wh = 100, soc = 1, delta_e_wh = 31257 / 20000\<rparr>,
      \<lparr>time_h = 1 / 2, energy_wh = 100, soc = 1, delta_e_wh = 31257 / 20000\<rparr>]"
  by (simp add: euler_loop_numeral clamp_def to_soc_def py_round_10 round_half_even_def Let_def)

lemma charge_scenario_model:
  "BatteryModel_init 100 (70 / 100) (90 / 100)
     = Inr \<lparr>m_capacity_wh = 100, m_eta = 9 / 10, m_initial_energy_wh = 70\<rparr>"
  by (simp add: BatteryModel_init_def)

lemma charge_scenario_unfold:
  "charge_scenario =
     Inr \<lparr>steps = \<lparr>time_h = 0, energy_wh = 70, soc = 7 / 10, delta_e_wh = 0\<rparr>
            # euler_loop \<lparr>m_capacity_wh = 100, m_eta = 9 / 10, m_initial_energy_wh = 70\<rparr>
                (10419 / 100) (1 / 60) 30 70 0,
          ts_dt_h = 1 / 60, ts_duration_h = 1 / 2, ts_capacity_wh = 100, ts_eta = 9 / 10,
          ts_p_excess_w = 10419 / 100\<rparr>"
proof -
  have n: "nat (py_int 30) = 30"
    by (simp add: py_int_def)
  show ?thesis
    unfolding charge_scenario_def charge_scenario_model
    by (simp add: simulate_def fl_overflows_def fl_30 n to_soc_def Let_def
        del: euler_loop.simps)
qed

lemma charge_scenario_steps:
  "charge_scenario = Inr \<lparr>steps =
       [\<lparr>time_h = 0, energy_wh = 70, soc = 7 / 10, delta_e_wh = 0\<rparr>,
        \<lparr>time_h = 166666667 / 10000000000, energy_wh = 1431257 / 20000, soc = 1431257 / 2000000, delta_e_wh = 31257 / 20000\<rparr>,
        \<lparr>time_h = 333333333 / 10000000000, energy_wh = 731257 / 10000, soc = 731257 / 1000000, delta_e_wh = 31257 / 20000\<rparr>,
        \<lparr>time_h = 1 / 20, energy_wh = 1493771 / 20000, soc = 1493771 / 2000000, delta_e_wh = 31257 / 20000\<rparr>,
        \<lparr>time_h = 666666667 / 10000000000, energy_wh = 381257 / 5000, soc = 381257 / 500000, delta_e_wh = 31257 / 20000\<rparr>,
        \<lparr>time_h = 833333333 / 10000000000, energy_wh = 311257 / 4000, soc = 311257 / 400000, delta_e_wh = 31257 / 20000\<rparr>,
        \<lparr>time_h = 1 / 10, energy_wh = 793771 / 10000, soc = 793771 / 1000000, delta_e_wh = 31257 / 20000\<rparr>,
        \<lparr>time_h = 1166666667 / 10000000000, energy_wh = 1618799 / 20000, soc = 1618799 / 2000000, delta_e_wh = 31257 / 20000\<rparr>,
        \<lparr>time_h = 1333333333 / 10000000000, energy_wh = 206257 / 2500, soc = 206257 / 250000, delta_e_wh = 31257 / 20000\<rparr>,
        \<lparr>time_h = 3 / 20, energy_wh = 1681313 / 20000, soc = 1681313 / 2000000, delta_e_wh = 31257 / 20000\<rparr>,
        \<lparr>time_h = 1666666667 / 10000000000, energy_wh = 171257 / 2000, soc = 171257 / 200000, delta_e_wh = 31257 / 20000\<rparr>,
        \<lparr>time_h = 1833333333 / 10000000000, energy_wh = 1743827 / 20000, soc = 1743827 / 2000000, delta_e_wh = 31257 / 20000\<rparr>,
        \<lparr>time_h = 1 / 5, energy_wh = 443771 / 5000, soc = 443771 / 500000, delta_e_wh = 31257 / 20000\<rparr>,
        \<lparr>time_h = 2166666667 / 10000000000, energy_wh = 1806341 / 20000, soc = 1806341 / 2000000, delta_e_wh = 31257 / 20000\<rparr>,
        \<lparr>time_h = 2333333333 / 10000000000, energy_wh = 918799 / 10000, soc = 918799 / 1000000, delta_e_wh = 31257 / 20000\<rparr>,
        \<lparr>time_h = 1 / 4, energy_wh = 373771 / 4000, soc = 373771 / 400000, delta_e_wh = 31257 / 20000\<rparr>,
        \<lparr>time_h = 2666666667 / 10000000000, energy_wh = 118757 / 1250, soc = 118757 / 125000, delta_e_wh = 31257 / 20000\<rparr>,
        \<lparr>time_h = 2833333333 / 10000000000, energy_wh = 1931369 / 20000, soc = 1931369 / 2000000, delta_e_wh = 31257 / 20000\<rparr>,
        \<lparr>time_h = 3 / 10, energy_wh = 981313 / 10000, soc = 981313 / 1000000, delta_e_wh = 31257 / 20000\<rparr>,
        \<lparr>time_h = 3166666667 / 10000000000, energy_wh = 1993883 / 20000, soc = 1993883 / 2000000, delta_e_wh = 31257 / 20000\<rparr>,
        \<lparr>time_h = 3333333333 / 10000000000, energy_wh = 100, soc = 1, delta_e_wh = 31257 / 20000\<rparr>,
        \<lparr>time_h = 7 / 20, energy_wh = 100, soc = 1, delta_e_wh = 31257 / 20000\<rparr>,
        \<lparr>time_h = 3666666667 / 10000000000, energy_wh = 100, soc = 1, delta_e_wh = 31257 / 20000\<rparr>,
        \<lparr>time_h = 3833333333 / 10000000000, energy_wh = 100, soc = 1, delta_e_wh = 31257 / 20000\<rparr>,
        \<lparr>time_h = 2 / 5, energy_wh = 100, soc = 1, delta_e_wh = 31257 / 20000\<rparr>,
        \<lparr>time_h = 4166666667 / 10000000000, energy_wh = 100, soc = 1, delta_e_wh = 31257 / 20000\<rparr>,
        \<lparr>time_h = 4333333333 / 10000000000, energy_wh = 100, soc = 1, delta_e_wh = 31257 / 20000\<rparr>,
        \<lparr>time_h = 9 / 20, energy_wh = 100, soc = 1, delta_e_wh = 31257 / 20000\<rparr>,
        \<lparr>time_h = 4666666667 / 10000000000, energy_wh = 100, soc = 1, delta_e_wh = 31257 / 20000\<rparr>,
        \<lparr>time_h = 4833333333 / 10000000000, energy_wh = 100, soc = 1, delta_e_wh = 31257 / 20000\<rparr>,
        \<lparr>time_h = 1 / 2, energy_wh = 100, soc = 1, delta_e_wh = 31257 / 20000\<rparr>],
       ts_dt_h = 1 / 60, ts_duration_h = 1 / 2, ts_capacity_wh = 100, ts_eta = 9 / 10,
       ts_p_excess_w = 10419 / 100\<rparr>"
  unfolding charge_scenario_unfold charge_scenario_loop by simp

text \<open>
  Claim C4, as stated: in the scenario every snapshot after the battery first reaches
  100 Wh has an energy increment of 0. The battery is full at step 20; the snapshot of
  step 21 still records the increment \<open>eta * p_excess * dt = 1.56285\<close> Wh, because
  \<open>delta_e_wh\<close> is the increment before clamping.
\<close>

theorem charge_scenario_delta_counterexample:
  "\<not> isl charge_scenario
   \<and> energy_wh (steps (projr charge_scenario) ! 20) = 100
   \<and> time_h (steps (projr charge_scenario) ! 20) < time_h (steps (projr charge_scenario) ! 21)
   \<and> energy_wh (steps (projr charge_scenario) ! 21) = 100
   \<and> delta_e_wh (steps (projr charge_scenario) ! 21) = 156285 / 100000
   \<and> delta_e_wh (steps (projr charge_scenario) ! 21) \<noteq> 0"
  unfolding charge_scenario_steps by simp

text \<open>
  Claim C4, amended: the scenario returns 31 snapshots; step 0 has a stored energy of
  70 Wh and a state of charge of 0.70; the stored energy stays below 100 Wh up to step
  19 and is 100 Wh from step 20 on, whose recorded time 0.3333333333 h is before 0.5 h;
  and every snapshot after step 0, also once the battery is full, records the same
  energy increment \<open>eta * p_excess * dt = 1.56285\<close> Wh.
\<close>

theorem charge_scenario_trace:
  "\<exists>ts. charge_scenario = Inr ts
      \<and> length (steps ts) = 31
      \<and> energy_wh (steps ts ! 0) = 70 \<and> soc (steps ts ! 0) = 70 / 100
      \<and> map energy_wh (take 20 (steps ts))
          = [70, 1431257 / 20000, 731257 / 10000, 1493771 / 20000, 381257 / 5000,
            311257 / 4000, 793771 / 10000, 1618799 / 20000, 206257 / 2500, 1681313 / 20000,
            171257 / 2000, 1743827 / 20000, 443771 / 5000, 1806341 / 20000, 918799 / 10000,
            373771 / 4000, 118757 / 1250, 1931369 / 20000, 981313 / 10000, 1993883 / 20000]
      \<and> map energy_wh (drop 20 (steps ts)) = replicate 11 100
      \<and> time_h (steps ts ! 20) = 3333333333 / 10 ^ 10
      \<and> time_h (steps ts ! 20) < 1 / 2
      \<and> map delta_e_wh (drop 1 (steps ts)) = replicate 30 (9 / 10 * (10419 / 100) * (1 / 60))
      \<and> 9 / 10 * (10419 / 100) * (1 / 60) = (156285 / 100000 :: real)"
  unfolding charge_scenario_steps by (simp add: eval_nat_numeral)

end
